theory Spec2Isabelle
  imports Complex_Main "HOL-Library.Signed_Division" "HOL-Library.Log_Nat"
begin

section \<open>Machine numbers of the Go source\<close>

text \<open>
  The Go types \<^verbatim>\<open>int\<close>, \<^verbatim>\<open>int64\<close> and \<^verbatim>\<open>time.Duration\<close> (a count of nanoseconds) are
  signed 64-bit integers. They are modelled as \<^typ>\<open>int\<close> with the two's complement
  wrap-around written out: every arithmetic result passes through \<open>wrap64\<close>.
  Go's integer division truncates towards zero, which is \<open>sdiv\<close> on \<^typ>\<open>int\<close>.

  A \<^verbatim>\<open>time.Time\<close> is the number of nanoseconds since the zero instant
  \<^verbatim>\<open>time.Time{}\<close>, so \<^verbatim>\<open>IsZero\<close> is the comparison with \<open>0\<close>.
\<close>

type_synonym int64 = int
type_synonym duration = int
type_synonym float64 = real
type_synonym time = int

definition wrap64 :: "int \<Rightarrow> int64" where
  "wrap64 x = (x + 2 ^ 63) mod 2 ^ 64 - 2 ^ 63"

definition add64 :: "int64 \<Rightarrow> int64 \<Rightarrow> int64" where
  "add64 a b = wrap64 (a + b)"

definition sub64 :: "int64 \<Rightarrow> int64 \<Rightarrow> int64" where
  "sub64 a b = wrap64 (a - b)"

definition mul64 :: "int64 \<Rightarrow> int64 \<Rightarrow> int64" where
  "mul64 a b = wrap64 (a * b)"

definition quo64 :: "int64 \<Rightarrow> int64 \<Rightarrow> int64" where
  "quo64 a b = wrap64 (a sdiv b)"

subsection \<open>Binary64 arithmetic\<close>

text \<open>
  A finite \<^verbatim>\<open>float64\<close> is modelled by the real number it denotes. Every operation of
  the analyzer on floats, every conversion of an integer and every decimal constant of
  the source is rounded to the nearest binary64 number, ties to the even significand:
  \<open>ilog2 x\<close> is the exponent of the power of two at or below \<open>x\<close>, a number has 53
  significant bits, and the unit in the last place is never below \<open>2 powi - 1074\<close>, the
  spacing of the subnormal numbers. Infinities and NaN are not values of the model: no
  division of the analyzer has a zero divisor, and a quotient beyond the largest
  binary64 number stays a large number here, on the same side of every constant that
  the code compares it with.
\<close>

definition ilog2 :: "real \<Rightarrow> int" where
  "ilog2 x = (if 1 \<le> x then bitlen \<lfloor>x\<rfloor> - 1 else - bitlen (\<lceil>1 / x\<rceil> - 1))"

definition roundHalfEven :: "real \<Rightarrow> int" where
  "roundHalfEven x =
     (let f = \<lfloor>x\<rfloor>; r = x - of_int f
      in if r < 1 / 2 then f else if 1 / 2 < r then f + 1 else if even f then f else f + 1)"

definition ulpExponent :: "real \<Rightarrow> int" where
  "ulpExponent x = max (ilog2 \<bar>x\<bar> - 52) (- 1074)"

definition round64 :: "real \<Rightarrow> float64" where
  "round64 x =
     (if x = 0 then 0
      else of_int (roundHalfEven (x / 2 powi ulpExponent x)) * 2 powi ulpExponent x)"

definition float64_of_int :: "int \<Rightarrow> float64" where
  "float64_of_int i = round64 (of_int i)"

definition fadd :: "float64 \<Rightarrow> float64 \<Rightarrow> float64" where
  "fadd x y = round64 (x + y)"

definition fmul :: "float64 \<Rightarrow> float64 \<Rightarrow> float64" where
  "fmul x y = round64 (x * y)"

definition fdiv :: "float64 \<Rightarrow> float64 \<Rightarrow> float64" where
  "fdiv x y = round64 (x / y)"

text \<open>The conversion \<^verbatim>\<open>time.Duration(x)\<close> of a float discards the fraction.\<close>

definition trunc :: "float64 \<Rightarrow> int" where
  "trunc x = (if 0 \<le> x then \<lfloor>x\<rfloor> else \<lceil>x\<rceil>)"

definition Millisecond :: duration where
  "Millisecond = 1000000"

definition Second :: duration where
  "Second = 1000000000"

section \<open>The stats snapshot and the quality scorer\<close>

record StreamStats =
  Bitrate :: int64
  SampleRate :: int
  Codec :: string
  DownloadSpeed :: float64
  BufferHealth :: float64
  Latency :: duration
  NetworkQuality :: string
  LastUpdated :: time
  PacketLoss :: float64
  Jitter :: duration
  ConnectionStability :: float64
  TotalBytes :: int64
  StartTime :: time

text \<open>
  \<^verbatim>\<open>assessNetworkQuality\<close> reads the snapshot and accumulates the local variable
  \<^verbatim>\<open>score\<close>; \<open>qualityScore\<close> is the value of that variable when the last
  \<^verbatim>\<open>if\<close> chain is reached, the five additions in the order of the source, each of
  them a binary64 addition. The function reaches the division only when the bitrate
  is not zero.
\<close>

definition qualityScore :: "StreamStats \<Rightarrow> float64" where
  "qualityScore stats =
     (let requiredSpeed = fdiv (float64_of_int (Bitrate stats)) 8;
          speedRatio = fdiv (DownloadSpeed stats) requiredSpeed;
          score = 0;
          score = (if speedRatio \<ge> round64 1.2 then fadd score 40
                   else if speedRatio \<ge> 1.0 then fadd score 35
                   else if speedRatio \<ge> round64 0.8 then fadd score 25
                   else if speedRatio \<ge> round64 0.6 then fadd score 15
                   else fadd score 5);
          score = (if BufferHealth stats > 80 then fadd score 20
                   else if BufferHealth stats > 60 then fadd score 15
                   else if BufferHealth stats > 40 then fadd score 10
                   else fadd score 5);
          score = fadd score (fmul (ConnectionStability stats) 0.25);
          score = (if PacketLoss stats < 1 then fadd score 10
                   else if PacketLoss stats < 5 then fadd score 5
                   else if PacketLoss stats < 10 then fadd score 2
                   else score);
          score = (if Jitter stats < 100 * Millisecond then fadd score 5
                   else if Jitter stats < 500 * Millisecond then fadd score 3
                   else if Jitter stats < 1 * Second then fadd score 1
                   else score)
      in score)"

definition assessNetworkQuality :: "StreamStats \<Rightarrow> string" where
  "assessNetworkQuality stats =
     (if Bitrate stats = 0 \<or> DownloadSpeed stats = 0 then ''Unknown''
      else let score = qualityScore stats
           in if score \<ge> 90 then ''Excellent''
              else if score \<ge> 75 then ''Good''
              else if score \<ge> 60 then ''Fair''
              else if score \<ge> 40 then ''Poor''
              else ''Very Poor'')"

text \<open>
  The scorer as the specification words it: five factor tables, their sum, and the
  label thresholds on the sum. The numbers are binary64 numbers and the quotient, the
  product and the sum are those of binary64, the sum taken from left to right.
\<close>

definition speed_factor :: "float64 \<Rightarrow> float64" where
  "speed_factor r =
     (if r \<ge> round64 1.2 then 40 else if r \<ge> 1.0 then 35 else if r \<ge> round64 0.8 then 25
      else if r \<ge> round64 0.6 then 15 else 5)"

definition buffer_factor :: "real \<Rightarrow> real" where
  "buffer_factor b = (if b > 80 then 20 else if b > 60 then 15 else if b > 40 then 10 else 5)"

definition loss_factor :: "real \<Rightarrow> real" where
  "loss_factor l = (if l < 1 then 10 else if l < 5 then 5 else if l < 10 then 2 else 0)"

definition jitter_factor :: "duration \<Rightarrow> real" where
  "jitter_factor j =
     (if j < 100000000 then 5 else if j < 500000000 then 3 else if j < 1000000000 then 1 else 0)"

definition spec_score :: "StreamStats \<Rightarrow> float64" where
  "spec_score s =
     fadd (fadd (fadd (fadd
       (speed_factor (fdiv (DownloadSpeed s) (fdiv (float64_of_int (Bitrate s)) 8)))
       (buffer_factor (BufferHealth s)))
       (fmul (ConnectionStability s) 0.25))
       (loss_factor (PacketLoss s)))
       (jitter_factor (Jitter s))"

definition spec_label :: "real \<Rightarrow> string" where
  "spec_label sc =
     (if sc \<ge> 90 then ''Excellent'' else if sc \<ge> 75 then ''Good''
      else if sc \<ge> 60 then ''Fair'' else if sc \<ge> 40 then ''Poor'' else ''Very Poor'')"

section \<open>The stream analyzer\<close>

text \<open>
  A \<^verbatim>\<open>context.Context\<close> with its \<^verbatim>\<open>CancelFunc\<close> is an object with an identity and
  a flag that \<^verbatim>\<open>cancel()\<close> sets and that \<^verbatim>\<open><-ctx.Done()\<close> observes. The analyzer
  holds the fields \<^verbatim>\<open>ctx\<close> and \<^verbatim>\<open>cancel\<close> of the same object, and every goroutine
  reaches the object through the field \<^verbatim>\<open>sa.ctx\<close>, so the object is kept inside the
  analyzer record.
\<close>

record Context =
  ctx_id :: nat
  cancelled :: bool

record StreamAnalyzer =
  stats :: StreamStats
  clientTimeout :: duration
  ctx :: Context
  downloadData :: int64
  startTime :: time
  firstAudio :: time
  bufferSize :: int64
  bufferUsed :: int64
  lastDownloadTime :: time
  lastDownloadBytes :: int64
  successfulRequests :: int64
  failedRequests :: int64
  requestTimes :: "duration list"
  lastRequestTime :: time

text \<open>The goroutines that \<^verbatim>\<open>StartAnalysis\<close> launches with \<^verbatim>\<open>go\<close>.\<close>

datatype task =
  ExtractMetadata string
| MonitorDownloadSpeed string
| MonitorBuffer
| MonitorNetworkQuality string

datatype error =
  AlreadyRunning
| ResolveError string
| SpawnError string
| SignalError string

text \<open>The zero value of \<^verbatim>\<open>StreamStats\<close>, which a new analyzer holds.\<close>

definition zeroStats :: StreamStats where
  "zeroStats = \<lparr>Bitrate = 0, SampleRate = 0, Codec = [], DownloadSpeed = 0,
     BufferHealth = 0, Latency = 0, NetworkQuality = [], LastUpdated = 0, PacketLoss = 0,
     Jitter = 0, ConnectionStability = 0, TotalBytes = 0, StartTime = 0\<rparr>"

text \<open>
  \<^verbatim>\<open>NewStreamAnalyzer\<close>: the only place of the source that calls
  \<^verbatim>\<open>context.WithCancel\<close>; \<open>c\<close> is the identity of the context it allocates.
\<close>

definition NewStreamAnalyzer :: "nat \<Rightarrow> StreamAnalyzer" where
  "NewStreamAnalyzer c =
     \<lparr>stats = zeroStats, clientTimeout = 30 * Second,
      ctx = \<lparr>ctx_id = c, cancelled = False\<rparr>,
      downloadData = 0, startTime = 0, firstAudio = 0,
      bufferSize = 1024 * 1024, bufferUsed = 0,
      lastDownloadTime = 0, lastDownloadBytes = 0,
      successfulRequests = 0, failedRequests = 0,
      requestTimes = [], lastRequestTime = 0\<rparr>"

text \<open>
  \<^verbatim>\<open>StartAnalysis(url)\<close> at the instant \<open>now\<close>: the assignments in the order of the
  source, then the four \<^verbatim>\<open>go\<close> statements. The returned error is always \<^verbatim>\<open>nil\<close>.
\<close>

definition StartAnalysis ::
  "time \<Rightarrow> string \<Rightarrow> StreamAnalyzer \<Rightarrow> error option \<times> StreamAnalyzer \<times> task list" where
  "StartAnalysis now url sa =
     (let sa = sa\<lparr>startTime := now\<rparr>;
          sa = sa\<lparr>downloadData := 0\<rparr>;
          sa = sa\<lparr>bufferUsed := 0\<rparr>;
          sa = sa\<lparr>lastDownloadTime := now\<rparr>;
          sa = sa\<lparr>lastDownloadBytes := 0\<rparr>;
          sa = sa\<lparr>successfulRequests := 0\<rparr>;
          sa = sa\<lparr>failedRequests := 0\<rparr>;
          sa = sa\<lparr>requestTimes := take 0 (requestTimes sa)\<rparr>;
          sa = sa\<lparr>lastRequestTime := 0\<rparr>;
          sa = sa\<lparr>stats := (stats sa)\<lparr>StartTime := now, TotalBytes := 0, PacketLoss := 0,
                 Jitter := 0, ConnectionStability := 100\<rparr>\<rparr>
      in (None, sa,
          [ExtractMetadata url, MonitorDownloadSpeed url, MonitorBuffer,
           MonitorNetworkQuality url]))"

text \<open>\<^verbatim>\<open>StopAnalysis\<close> calls \<^verbatim>\<open>sa.cancel()\<close>, which cancels the context of the analyzer.\<close>

definition StopAnalysis :: "StreamAnalyzer \<Rightarrow> StreamAnalyzer" where
  "StopAnalysis sa = sa\<lparr>ctx := (ctx sa)\<lparr>cancelled := True\<rparr>\<rparr>"

text \<open>
  \<^verbatim>\<open>updateStats\<close> applies the caller's mutation to the snapshot and recomputes the
  label from the mutated snapshot.
\<close>

definition updateStats :: "(StreamStats \<Rightarrow> StreamStats) \<Rightarrow> StreamAnalyzer \<Rightarrow> StreamAnalyzer" where
  "updateStats updateFunc sa =
     (let sa = sa\<lparr>stats := updateFunc (stats sa)\<rparr>
      in sa\<lparr>stats := (stats sa)\<lparr>NetworkQuality := assessNetworkQuality (stats sa)\<rparr>\<rparr>)"

subsection \<open>The periodic monitors\<close>

text \<open>
  Each of the three periodic monitors is a loop around a \<^verbatim>\<open>select\<close> between
  \<^verbatim>\<open><-sa.ctx.Done()\<close> and its ticker. The ticker of a monitor that has just been
  launched fires after one interval at the earliest, and the channel of a cancelled
  context is ready at once: \<open>monitor_exits\<close> is the condition under which the
  \<^verbatim>\<open>select\<close> of an iteration can take the branch that returns.
\<close>

definition monitor_exits :: "StreamAnalyzer \<Rightarrow> bool" where
  "monitor_exits sa = cancelled (ctx sa)"

text \<open>
  The section of a tick of \<^verbatim>\<open>monitorDownloadSpeed\<close> that runs under the lock:
  \<open>ok\<close> says that the HEAD request returned no error, \<open>start\<close> is the instant before
  the request and \<open>requestDuration\<close> the time it took.
\<close>

definition recordRequest :: "bool \<Rightarrow> time \<Rightarrow> duration \<Rightarrow> StreamAnalyzer \<Rightarrow> StreamAnalyzer" where
  "recordRequest ok start requestDuration sa =
     (if \<not> ok then sa\<lparr>failedRequests := add64 (failedRequests sa) 1\<rparr>
      else let sa = sa\<lparr>successfulRequests := add64 (successfulRequests sa) 1\<rparr>;
               sa = sa\<lparr>requestTimes := requestTimes sa @ [requestDuration]\<rparr>;
               sa = (if length (requestTimes sa) > 10
                     then sa\<lparr>requestTimes := drop 1 (requestTimes sa)\<rparr> else sa)
           in sa\<lparr>lastRequestTime := start\<rparr>)"

text \<open>
  \<^verbatim>\<open>calculateJitter\<close>: the sum, the mean and the sum of the squared deviations are
  \<^verbatim>\<open>time.Duration\<close> values, so each step is 64-bit arithmetic. The result is
  \<^verbatim>\<open>time.Duration(float64(variance) * 0.5)\<close>: the variance is rounded to a binary64
  number, halved, and the fraction is discarded.
\<close>

definition sumDurations :: "duration list \<Rightarrow> duration" where
  "sumDurations rts = foldl add64 0 rts"

definition sumSquares :: "duration \<Rightarrow> duration list \<Rightarrow> duration" where
  "sumSquares avg rts =
     foldl (\<lambda>variance rt. let diff = sub64 rt avg in add64 variance (mul64 diff diff))
       0 rts"

definition calculateJitter :: "duration list \<Rightarrow> duration" where
  "calculateJitter rts =
     (if length rts < 2 then 0
      else let sum = sumDurations rts;
               avg = quo64 sum (int (length rts));
               variance = sumSquares avg rts;
               variance = quo64 variance (int (length rts))
           in wrap64 (trunc (fmul (float64_of_int variance) 0.5)))"

text \<open>\<^verbatim>\<open>calculateConnectionStability\<close> reads the counters and the ring of the analyzer.\<close>

definition calculateConnectionStability :: "StreamAnalyzer \<Rightarrow> float64" where
  "calculateConnectionStability sa =
     (let totalRequests = add64 (successfulRequests sa) (failedRequests sa)
      in if totalRequests = 0 then 100
         else let successRate = fdiv (float64_of_int (successfulRequests sa))
                                     (float64_of_int totalRequests);
                  stability = fmul successRate 100;
                  stability =
                    (if length (requestTimes sa) > 1
                     then let avgRequestTime = sumDurations (requestTimes sa);
                              avgRequestTime = quo64 avgRequestTime (int (length (requestTimes sa)))
                          in if avgRequestTime > 2 * Second then fmul stability (round64 0.8)
                             else stability
                     else stability);
                  stability = (if stability < 0 then 0 else stability);
                  stability = (if stability > 100 then 100 else stability)
              in stability)"

text \<open>
  The body of a tick of \<^verbatim>\<open>monitorNetworkQuality\<close>: packet loss from the counters,
  jitter from a copy of the ring, stability, and the publication of the three.
\<close>

definition networkQualityTick :: "StreamAnalyzer \<Rightarrow> StreamAnalyzer" where
  "networkQualityTick sa =
     (let totalRequests = add64 (successfulRequests sa) (failedRequests sa);
          packetLoss = (if totalRequests > 0
                        then fmul (fdiv (float64_of_int (failedRequests sa))
                                        (float64_of_int totalRequests)) 100
                        else 0);
          jitter = calculateJitter (requestTimes sa);
          stability = calculateConnectionStability sa
      in updateStats (\<lambda>s. s\<lparr>PacketLoss := packetLoss, Jitter := jitter,
                              ConnectionStability := stability\<rparr>) sa)"

subsection \<open>Metadata extraction\<close>

text \<open>
  A stream descriptor of the probe's JSON document. The fields \<^verbatim>\<open>SampleRate\<close> and
  \<^verbatim>\<open>StartTime\<close> carry the prefix \<open>probe\<close>, since the snapshot has fields of the
  same names.
\<close>

record FFProbeStream =
  Index :: int
  CodecName :: string
  CodecType :: string
  BitRate :: string
  probeSampleRate :: string
  Channels :: int
  Duration :: string
  probeStartTime :: string

text \<open>
  \<^verbatim>\<open>extractMetadata\<close> calls three library functions, which are parameters here:
  \<open>output\<close> is the result of \<^verbatim>\<open>cmd.Output()\<close> (\<open>None\<close> when it returns an error),
  \<open>unmarshal\<close> is \<^verbatim>\<open>json.Unmarshal\<close> into the \<^verbatim>\<open>streams\<close> array (\<open>None\<close> when it
  returns an error), and \<open>sscan\<close> is \<^verbatim>\<open>fmt.Sscanf\<close> with the verb \<^verbatim>\<open>%d\<close>, which stores
  a number or leaves the variable as it was. The function has no result: whatever
  happens, it publishes a snapshot and returns.
\<close>

definition extractMetadata ::
  "string option \<Rightarrow> (string \<Rightarrow> FFProbeStream list option) \<Rightarrow> (string \<Rightarrow> int option) \<Rightarrow>
   StreamAnalyzer \<Rightarrow> StreamAnalyzer" where
  "extractMetadata output unmarshal sscan sa =
     (case output of
        None \<Rightarrow> updateStats (\<lambda>s. s\<lparr>Codec := ''Unknown'', Bitrate := 0, SampleRate := 0\<rparr>) sa
      | Some out \<Rightarrow>
          (case unmarshal out of
             None \<Rightarrow>
               updateStats (\<lambda>s. s\<lparr>Codec := ''AAC'', Bitrate := 128000, SampleRate := 44100\<rparr>) sa
           | Some streams \<Rightarrow>
               (case find (\<lambda>st. CodecType st = ''audio'') streams of
                  None \<Rightarrow>
                    updateStats
                      (\<lambda>s. s\<lparr>Codec := ''Unknown'', Bitrate := 128000, SampleRate := 44100\<rparr>) sa
                | Some audioStream \<Rightarrow>
                    (let bitrate = 128000;
                         bitrate = (if BitRate audioStream \<noteq> []
                                    then (case sscan (BitRate audioStream) of
                                            Some v \<Rightarrow> v | None \<Rightarrow> bitrate)
                                    else bitrate);
                         sampleRate = 44100;
                         sampleRate = (if probeSampleRate audioStream \<noteq> []
                                       then (case sscan (probeSampleRate audioStream) of
                                               Some v \<Rightarrow> v | None \<Rightarrow> sampleRate)
                                       else sampleRate)
                     in updateStats
                          (\<lambda>s. s\<lparr>Codec := CodecName audioStream, Bitrate := bitrate,
                                 SampleRate := sampleRate\<rparr>) sa))))"

section \<open>The playback controller\<close>

text \<open>
  An argument of the player's command line is a literal string or the audio filter
  that \<^verbatim>\<open>fmt.Sprintf("volume=%fdB", volDb)\<close> renders; the filter is kept as the value
  it renders. An \<^verbatim>\<open>exec.Cmd\<close> has a \<^verbatim>\<open>Process\<close> once it has been started; the process
  is named by its pid.
\<close>

datatype arg = Lit string | VolumeFilter float64

record Cmd =
  Path :: string
  Args :: "arg list"
  Process :: "nat option"

record Player =
  cmd :: "Cmd option"
  currentStation :: int
  volumePercent :: int
  isStopped :: bool
  visualization :: bool
  analyzer :: StreamAnalyzer
  showStats :: bool

definition NewPlayer :: "nat \<Rightarrow> Player" where
  "NewPlayer c = \<lparr>cmd = None, currentStation = 0, volumePercent = 70, isStopped = False,
     visualization = False, analyzer = NewStreamAnalyzer c, showStats = False\<rparr>"

definition SetVolume :: "int \<Rightarrow> Player \<Rightarrow> Player" where
  "SetVolume percent p =
     (let percent = (if percent < 0 then 0 else percent);
          percent = (if percent > 100 then 100 else percent)
      in p\<lparr>volumePercent := percent\<rparr>)"

text \<open>
  The volume in dB of \<^verbatim>\<open>ffplayArgs\<close>. \<^verbatim>\<open>/\<close> and \<^verbatim>\<open>*\<close> have the same precedence and
  associate to the left, so the first term is \<^verbatim>\<open>(float64(p.volumePercent)/100)*0\<close>.
  The player receives the value through the verb \<^verbatim>\<open>%f\<close>, that is with six decimals,
  which the rounding in the last binary place does not reach: the formula is taken on
  the exact reals here.
\<close>

definition volDbFirstTerm :: "Player \<Rightarrow> float64" where
  "volDbFirstTerm p = real_of_int (volumePercent p) / 100 * 0"

definition volDb :: "Player \<Rightarrow> float64" where
  "volDb p = volDbFirstTerm p - 20 * (1 - real_of_int (volumePercent p) / 100)"

definition ffplayArgs :: "Player \<Rightarrow> string \<Rightarrow> arg list" where
  "ffplayArgs p url =
     [Lit ''-nodisp'', Lit ''-autoexit'', Lit ''-loglevel'', Lit ''warning'',
      Lit ''-hide_banner'', Lit ''-af'', VolumeFilter (volDb p), Lit url]"

text \<open>
  \<^verbatim>\<open>Start(url)\<close>, the section under the lock. The environment gives \<open>resolved\<close>, the
  result of \<^verbatim>\<open>resolvePlayableURL(url)\<close>, the instant \<open>now\<close>, and \<open>spawn\<close>, the result
  of \<^verbatim>\<open>p.cmd.Start()\<close>: an error or the pid of the new process. When no error is
  returned the caller has also launched the reaper goroutine for that process.
\<close>

definition Start :: "error + string \<Rightarrow> time \<Rightarrow> error + nat \<Rightarrow> Player \<Rightarrow> error option \<times> Player" where
  "Start resolved now spawn p =
     (if (case cmd p of None \<Rightarrow> False | Some c \<Rightarrow> Process c \<noteq> None)
      then (Some AlreadyRunning, p)
      else case resolved of
             Inl err \<Rightarrow> (Some err, p)
           | Inr url \<Rightarrow>
               (let p = p\<lparr>analyzer := fst (snd (StartAnalysis now url (analyzer p)))\<rparr>;
                    args = ffplayArgs p url;
                    p = p\<lparr>cmd := Some \<lparr>Path = ''ffplay'', Args = args, Process = None\<rparr>\<rparr>
                in case spawn of
                     Inl err \<Rightarrow> (Some err, p\<lparr>cmd := None\<rparr>)
                   | Inr pid \<Rightarrow>
                       (None, p\<lparr>cmd := Some \<lparr>Path = ''ffplay'', Args = args, Process = Some pid\<rparr>,
                                  isStopped := False\<rparr>)))"

text \<open>
  \<^verbatim>\<open>Stop()\<close>, the section under the lock, which lasts until the function returns.
  The environment decides how the stop goes: the signal fails, the process exits
  before the two seconds are over, or the deadline comes first.
\<close>

datatype stop_outcome = SignalFails string | ExitsInTime | DeadlineElapses

definition Stop :: "stop_outcome \<Rightarrow> Player \<Rightarrow> error option \<times> Player" where
  "Stop outcome p =
     (if (case cmd p of None \<Rightarrow> True | Some c \<Rightarrow> Process c = None)
      then (None, p\<lparr>isStopped := True, analyzer := StopAnalysis (analyzer p)\<rparr>)
      else let p = p\<lparr>isStopped := True\<rparr>;
               p = p\<lparr>analyzer := StopAnalysis (analyzer p)\<rparr>
           in case outcome of
                SignalFails err \<Rightarrow> (Some (SignalError err), p)
              | ExitsInTime \<Rightarrow> (None, p\<lparr>cmd := None\<rparr>)
              | DeadlineElapses \<Rightarrow> (None, p\<lparr>cmd := None\<rparr>))"

text \<open>The reaper goroutine, once \<^verbatim>\<open>cmd.Wait()\<close> has returned and it holds the lock.\<close>

definition reap :: "Player \<Rightarrow> Player" where
  "reap p = p\<lparr>cmd := None\<rparr>"

text \<open>
  The process in the handle slot of the player: \<^verbatim>\<open>Start\<close> and \<^verbatim>\<open>Stop\<close> take the slot
  for empty when \<^verbatim>\<open>p.cmd == nil || p.cmd.Process == nil\<close>.
\<close>

definition processHandle :: "Player \<Rightarrow> nat option" where
  "processHandle p = (case cmd p of None \<Rightarrow> None | Some c \<Rightarrow> Process c)"

subsection \<open>The controller and its processes\<close>

text \<open>
  The lock serialises the sections above, so a run of the program is a sequence of
  events, each of which is one section under the lock or a process that ends by
  itself. \<open>live\<close> holds the pids of the player processes that were spawned and have
  not ended, \<open>reapers\<close> the pids whose reaper goroutine has not yet run its section,
  and \<open>nextPid\<close> the pid that the next spawn gives. \<^verbatim>\<open>Restart(url)\<close> is the event
  \<open>CallStop\<close> followed by the event \<open>CallStart\<close>: it releases the lock in between.
\<close>

record World =
  player :: Player
  live :: "nat list"
  reapers :: "nat list"
  nextPid :: nat

datatype event =
  CallStart "error + string" time "error option"
| CallStop stop_outcome
| ProcessExits nat
| Reap nat

definition initWorld :: World where
  "initWorld = \<lparr>player = NewPlayer 0, live = [], reapers = [], nextPid = 0\<rparr>"

text \<open>
  \<open>step\<close> is \<open>None\<close> when the event cannot happen in the state: a process that is not
  live cannot end, and a reaper runs its section only after its process has ended.
  A process that \<^verbatim>\<open>Stop\<close> has waited for or killed is no longer live.
\<close>

definition step :: "event \<Rightarrow> World \<Rightarrow> World option" where
  "step ev w =
     (case ev of
        CallStart resolved now spawnErr \<Rightarrow>
          (let spawn = (case spawnErr of Some err \<Rightarrow> Inl err | None \<Rightarrow> Inr (nextPid w));
               (err, p) = Start resolved now spawn (player w)
           in if err = None
              then Some (w\<lparr>player := p, live := nextPid w # live w,
                           reapers := nextPid w # reapers w, nextPid := Suc (nextPid w)\<rparr>)
              else Some (w\<lparr>player := p\<rparr>))
      | CallStop outcome \<Rightarrow>
          (let (err, p) = Stop outcome (player w)
           in case cmd (player w) of
                None \<Rightarrow> Some (w\<lparr>player := p\<rparr>)
              | Some c \<Rightarrow>
                  (case Process c of
                     None \<Rightarrow> Some (w\<lparr>player := p\<rparr>)
                   | Some pid \<Rightarrow>
                       (case outcome of
                          SignalFails e \<Rightarrow> Some (w\<lparr>player := p\<rparr>)
                        | ExitsInTime \<Rightarrow> Some (w\<lparr>player := p, live := removeAll pid (live w)\<rparr>)
                        | DeadlineElapses \<Rightarrow>
                            Some (w\<lparr>player := p, live := removeAll pid (live w)\<rparr>))))
      | ProcessExits pid \<Rightarrow>
          (if pid \<in> set (live w) then Some (w\<lparr>live := removeAll pid (live w)\<rparr>) else None)
      | Reap pid \<Rightarrow>
          (if pid \<in> set (reapers w) \<and> pid \<notin> set (live w)
           then Some (w\<lparr>player := reap (player w), reapers := removeAll pid (reapers w)\<rparr>)
           else None))"

fun run :: "event list \<Rightarrow> World \<Rightarrow> World option" where
  "run [] w = Some w"
| "run (ev # evs) w = (case step ev w of None \<Rightarrow> None | Some w' \<Rightarrow> run evs w')"

definition Restart :: "stop_outcome \<Rightarrow> error + string \<Rightarrow> time \<Rightarrow> error option \<Rightarrow> event list" where
  "Restart outcome resolved now spawnErr = [CallStop outcome, CallStart resolved now spawnErr]"

section \<open>Concrete inputs and the specification's formulas\<close>

text \<open>The snapshot of the specification's second scoring scenario.\<close>

definition scenario :: StreamStats where
  "scenario = zeroStats\<lparr>Bitrate := 128000, DownloadSpeed := 6400, BufferHealth := 20,
     ConnectionStability := 50, PacketLoss := 8, Jitter := 600 * Millisecond\<rparr>"

text \<open>
  Connection stability as the specification words it: the success rate times 100,
  times 0.8 when the average of the recorded durations exceeds two seconds, in
  binary64 arithmetic.
\<close>

definition success_percent :: "StreamAnalyzer \<Rightarrow> float64" where
  "success_percent sa =
     fmul (fdiv (float64_of_int (successfulRequests sa))
                (float64_of_int (successfulRequests sa + failedRequests sa))) 100"

definition spec_stability :: "StreamAnalyzer \<Rightarrow> float64" where
  "spec_stability sa =
     (if requestTimes sa \<noteq> []
         \<and> real_of_int (sum_list (requestTimes sa)) / real (length (requestTimes sa))
             > real_of_int (2 * Second)
      then fmul (success_percent sa) (round64 0.8) else success_percent sa)"

text \<open>
  Connection stability as the code computes it when nothing wraps around: the penalty
  needs two recorded durations at least, and their mean is an integer quotient.
\<close>

definition guarded_stability :: "StreamAnalyzer \<Rightarrow> float64" where
  "guarded_stability sa =
     (if 1 < length (requestTimes sa)
         \<and> sum_list (requestTimes sa) div int (length (requestTimes sa)) > 2 * Second
      then fmul (success_percent sa) (round64 0.8) else success_percent sa)"

text \<open>A session whose only probe so far succeeded after three seconds.\<close>

definition slowProbe :: StreamAnalyzer where
  "slowProbe =
     recordRequest True 1 (3 * Second) (fst (snd (StartAnalysis 1 ''u'' (NewStreamAnalyzer 0))))"

text \<open>The same session after two more such probes and one failed probe.\<close>

definition threeSlowOneFailed :: StreamAnalyzer where
  "threeSlowOneFailed =
     recordRequest False 4 0
       (recordRequest True 3 (3 * Second) (recordRequest True 2 (3 * Second) slowProbe))"

text \<open>A session with 57 successful and 43 failed probes and an empty ring.\<close>

definition fiftySevenOfHundred :: StreamAnalyzer where
  "fiftySevenOfHundred =
     (NewStreamAnalyzer 0)\<lparr>successfulRequests := 57, failedRequests := 43\<rparr>"

text \<open>
  A snapshot whose download speed is the binary64 number next below 14400: the exact
  ratio to the required 12000 bytes per second is below 1.2, and the binary64
  quotient is the binary64 constant 1.2.
\<close>

definition roundedRatio :: StreamStats where
  "roundedRatio = zeroStats\<lparr>Bitrate := 96000,
     DownloadSpeed := 7916483719987199 / 549755813888, BufferHealth := 85,
     ConnectionStability := 76\<rparr>"

text \<open>
  Jitter as the specification words it: half the population variance of the durations
  about their mean, in integer nanoseconds, on the mathematical integers.
\<close>

definition spec_mean :: "duration list \<Rightarrow> int" where
  "spec_mean rts = sum_list rts sdiv int (length rts)"

definition spec_squares :: "duration list \<Rightarrow> int" where
  "spec_squares rts = (\<Sum>d\<leftarrow>rts. (d - spec_mean rts) * (d - spec_mean rts))"

definition spec_jitter :: "duration list \<Rightarrow> duration" where
  "spec_jitter rts =
     (if length rts < 2 then 0
      else let variance = spec_squares rts sdiv int (length rts)
           in trunc (real_of_int variance * 0.5))"

text \<open>A probe output that parses to one video stream and no audio stream.\<close>

definition videoStream :: FFProbeStream where
  "videoStream = \<lparr>Index = 0, CodecName = ''h264'', CodecType = ''video'', BitRate = ''900000'',
     probeSampleRate = [], Channels = 0, Duration = [], probeStartTime = []\<rparr>"

definition unmarshalVideoOnly :: "string \<Rightarrow> FFProbeStream list option" where
  "unmarshalVideoOnly out = (if out = ''video only'' then Some [videoStream] else None)"

text \<open>A player that \<^verbatim>\<open>Start\<close> has just started: its process has the pid 0.\<close>

definition runningPlayer :: Player where
  "runningPlayer = snd (Start (Inr ''a'') 1 (Inr 0) (NewPlayer 0))"

text \<open>
  A run of the controller: a station is started, the station is switched, the
  reaper of the first process runs its section after the second \<^verbatim>\<open>Start\<close>, and the
  station is switched again.
\<close>

definition staleReaperRun :: "event list" where
  "staleReaperRun =
     [CallStart (Inr ''a'') 1 None] @ Restart ExitsInTime (Inr ''b'') 2 None
     @ [Reap 0] @ Restart ExitsInTime (Inr ''c'') 3 None"

section \<open>Properties of the binary64 rounding\<close>

text \<open>
  \<open>ilog2\<close> brackets its argument between two powers of two; a number with at most 53
  significant bits and an exponent in range is its own rounding; rounding is
  idempotent, and monotone on the numbers that are not negative.
\<close>

lemma pow2_pos: "0 < (2::real) powi e"
  by (simp add: zero_less_power_int)

lemma pow2_less_iff: "(2::real) powi a < 2 powi b \<longleftrightarrow> a < b"
proof
  assume "(2::real) powi a < 2 powi b"
  show "a < b"
  proof (rule ccontr)
    assume "\<not> a < b"
    then have "(2::real) powi b \<le> 2 powi a" by (intro power_int_increasing) auto
    with \<open>(2::real) powi a < 2 powi b\<close> show False by simp
  qed
next
  assume "a < b"
  then show "(2::real) powi a < 2 powi b" by (intro power_int_strict_increasing) auto
qed

lemma ilog2_bounds:
  assumes "0 < x"
  shows "2 powi ilog2 x \<le> x" and "x < 2 powi (ilog2 x + 1)"
proof -
  have "2 powi ilog2 x \<le> x \<and> x < 2 powi (ilog2 x + 1)"
  proof (cases "1 \<le> x")
    case True
    define n where "n = \<lfloor>x\<rfloor>"
    have n: "0 < n" using True by (simp add: n_def)
    define k where "k = bitlen n"
    have k: "1 \<le> k" using n by (simp add: k_def bitlen_alt_def)
    have b: "2 ^ nat (k - 1) \<le> n" "n < 2 ^ nat k"
      using bitlen_bounds [OF n] by (simp_all add: k_def)
    have il: "ilog2 x = k - 1" using True by (simp add: ilog2_def n_def k_def)
    have "real_of_int (2 ^ nat (k - 1)) \<le> real_of_int n" using b(1) by (simp only: of_int_le_iff)
    also have "\<dots> \<le> x" by (simp add: n_def)
    finally have lo: "2 powi (k - 1) \<le> x" using k by (simp add: power_int_def)
    have "n + 1 \<le> 2 ^ nat k" using b(2) by simp
    then have "real_of_int (n + 1) \<le> real_of_int (2 ^ nat k)" by (simp only: of_int_le_iff)
    moreover have "x < real_of_int (n + 1)" by (simp add: n_def)
    ultimately have "x < real_of_int (2 ^ nat k)" by linarith
    then have hi: "x < 2 powi k" using k by (simp add: power_int_def)
    show ?thesis using lo hi by (simp add: il)
  next
    case False
    define y where "y = 1 / x"
    have y: "1 < y" using False assms by (simp add: y_def)
    define c where "c = \<lceil>y\<rceil>"
    have c: "0 < c - 1" using y by (simp add: c_def less_ceiling_iff)
    define k where "k = bitlen (c - 1)"
    have k: "1 \<le> k" using c by (simp add: k_def bitlen_alt_def)
    have b: "2 ^ nat (k - 1) \<le> c - 1" "c - 1 < 2 ^ nat k"
      using bitlen_bounds [OF c] by (simp_all add: k_def)
    have il: "ilog2 x = - k" using False by (simp add: ilog2_def y_def c_def k_def)
    have "c \<le> 2 ^ nat k" using b(2) by simp
    then have "real_of_int c \<le> real_of_int (2 ^ nat k)" by (simp only: of_int_le_iff)
    moreover have "y \<le> real_of_int c" by (simp add: c_def)
    ultimately have "y \<le> real_of_int (2 ^ nat k)" by linarith
    then have "1 / x \<le> 2 ^ nat k" by (simp add: y_def)
    then have "1 \<le> 2 ^ nat k * x" using assms by (simp add: field_simps)
    then have "1 / 2 ^ nat k \<le> x" by (simp add: field_simps)
    moreover have "(2::real) powi (- k) = 1 / 2 ^ nat k"
      using k power_int_minus_divide [of "2::real" k] by (simp add: power_int_nonneg_exp)
    ultimately have lo: "2 powi (- k) \<le> x" by simp
    have "real_of_int (2 ^ nat (k - 1)) \<le> real_of_int (c - 1)" using b(1) by (simp only: of_int_le_iff)
    moreover have "real_of_int (c - 1) < y" by (simp add: c_def) linarith
    ultimately have "real_of_int (2 ^ nat (k - 1)) < y" by linarith
    then have "2 ^ nat (k - 1) < 1 / x" by (simp add: y_def)
    then have "2 ^ nat (k - 1) * x < 1" using assms by (simp add: field_simps)
    then have "x < 1 / 2 ^ nat (k - 1)" by (simp add: field_simps)
    moreover have "(2::real) powi (- k + 1) = 1 / 2 ^ nat (k - 1)"
      using k power_int_minus_divide [of "2::real" "k - 1"] by (simp add: power_int_nonneg_exp)
    ultimately have hi: "x < 2 powi (- k + 1)" by simp
    show ?thesis using lo hi by (simp add: il)
  qed
  then show "2 powi ilog2 x \<le> x" and "x < 2 powi (ilog2 x + 1)" by simp_all
qed

lemma roundHalfEven_of_int [simp]: "roundHalfEven (of_int m) = m"
  by (simp add: roundHalfEven_def)

lemma roundHalfEven_floor: "\<lfloor>x\<rfloor> \<le> roundHalfEven x" "roundHalfEven x \<le> \<lfloor>x\<rfloor> + 1"
  by (simp_all add: roundHalfEven_def Let_def)

lemma roundHalfEven_ge: "of_int a \<le> x \<Longrightarrow> a \<le> roundHalfEven x"
  using roundHalfEven_floor(1) [of x] le_floor_iff [of a x] by linarith

lemma roundHalfEven_le:
  assumes "x \<le> of_int b"
  shows "roundHalfEven x \<le> b"
proof (cases "x = of_int b")
  case True
  then show ?thesis by simp
next
  case False
  with assms have "x < of_int b" by simp
  then have "\<lfloor>x\<rfloor> < b" by (simp add: floor_less_iff)
  with roundHalfEven_floor(2) [of x] show ?thesis by linarith
qed

lemma roundHalfEven_mono:
  assumes "x \<le> y"
  shows "roundHalfEven x \<le> roundHalfEven y"
proof (cases "\<lfloor>x\<rfloor> = \<lfloor>y\<rfloor>")
  case True
  with assms have "x - of_int \<lfloor>x\<rfloor> \<le> y - of_int \<lfloor>y\<rfloor>" by simp
  with True show ?thesis by (auto simp add: roundHalfEven_def Let_def)
next
  case False
  moreover have "\<lfloor>x\<rfloor> \<le> \<lfloor>y\<rfloor>" using assms by (rule floor_mono)
  ultimately have "\<lfloor>x\<rfloor> + 1 \<le> \<lfloor>y\<rfloor>" by simp
  with roundHalfEven_floor(2) [of x] roundHalfEven_floor(1) [of y] show ?thesis by linarith
qed

lemma ulpExponent_ge: "- 1074 \<le> ulpExponent x"
  by (simp add: ulpExponent_def)

lemma scaled_less:
  assumes "x \<noteq> 0"
  shows "\<bar>x\<bar> / 2 powi ulpExponent x < 2 ^ 53"
proof -
  have "\<bar>x\<bar> < 2 powi (ilog2 \<bar>x\<bar> + 1)" using assms by (intro ilog2_bounds) simp
  also have "\<dots> \<le> 2 powi (ulpExponent x + 53)"
    by (intro power_int_increasing) (simp_all add: ulpExponent_def)
  also have "\<dots> = 2 powi ulpExponent x * 2 ^ 53"
    by (simp add: power_int_add)
  finally show ?thesis using pow2_pos [of "ulpExponent x"] by (simp add: field_simps)
qed

lemma scaled_ge:
  assumes "x \<noteq> 0" and "- 1074 < ulpExponent x"
  shows "2 ^ 52 \<le> \<bar>x\<bar> / 2 powi ulpExponent x"
proof -
  have e: "ulpExponent x = ilog2 \<bar>x\<bar> - 52" using assms(2) by (simp add: ulpExponent_def max_def split: if_splits)
  have "(2::real) powi ulpExponent x * 2 ^ 52 = 2 powi (ulpExponent x + 52)"
    by (simp add: power_int_add)
  also have "\<dots> = 2 powi ilog2 \<bar>x\<bar>" by (simp add: e)
  also have "\<dots> \<le> \<bar>x\<bar>" using assms(1) by (intro ilog2_bounds) simp
  finally show ?thesis using pow2_pos [of "ulpExponent x"] by (simp add: field_simps)
qed

lemma round64_zero [simp]: "round64 0 = 0"
  by (simp add: round64_def)

lemma round64_nonneg: "0 \<le> x \<Longrightarrow> 0 \<le> round64 x"
proof -
  assume "0 \<le> x"
  then have "0 \<le> x / 2 powi ulpExponent x" using pow2_pos [of "ulpExponent x"] by simp
  then have "0 \<le> roundHalfEven (x / 2 powi ulpExponent x)"
    using roundHalfEven_ge [of 0] by simp
  then show ?thesis using pow2_pos [of "ulpExponent x"] by (simp add: round64_def)
qed

lemma round64_exact_less:
  assumes x: "x = of_int m * 2 powi e" and m: "\<bar>m\<bar> < 2 ^ 53" and e: "- 1074 \<le> e"
  shows "round64 x = x"
proof (cases "m = 0")
  case True
  then show ?thesis by (simp add: x)
next
  case False
  then have x0: "x \<noteq> 0" by (simp add: x)
  define e0 where "e0 = ulpExponent x"
  have "\<bar>x\<bar> = of_int \<bar>m\<bar> * 2 powi e" by (simp add: x abs_mult power_int_abs)
  also have "\<dots> < 2 ^ 53 * 2 powi e"
  proof -
    have "real_of_int \<bar>m\<bar> < real_of_int (2 ^ 53)" using m by (simp only: of_int_less_iff)
    then show ?thesis using pow2_pos [of e] by simp
  qed
  also have "\<dots> = 2 powi (e + 53)" by (simp add: power_int_add)
  finally have "\<bar>x\<bar> < 2 powi (e + 53)" .
  moreover have "2 powi ilog2 \<bar>x\<bar> \<le> \<bar>x\<bar>" using x0 by (intro ilog2_bounds) simp
  ultimately have "(2::real) powi ilog2 \<bar>x\<bar> < 2 powi (e + 53)" by linarith
  then have "ilog2 \<bar>x\<bar> < e + 53" by (simp only: pow2_less_iff)
  then have le: "e0 \<le> e" using e by (simp add: e0_def ulpExponent_def)
  define d where "d = nat (e - e0)"
  have "(2::real) powi e = 2 powi (e0 + int d)" using le by (simp add: d_def)
  also have "\<dots> = 2 powi e0 * 2 ^ d" by (simp add: power_int_add)
  finally have split: "(2::real) powi e = 2 powi e0 * 2 ^ d" .
  have scaled: "of_int m * 2 powi e / 2 powi e0 = real_of_int (m * 2 ^ d)"
    using pow2_pos [of e0] by (simp add: split)
  have "round64 x = of_int (roundHalfEven (x / 2 powi e0)) * 2 powi e0"
    using x0 by (simp add: round64_def e0_def)
  also have "x / 2 powi e0 = real_of_int (m * 2 ^ d)"
    using scaled by (simp only: x)
  also have "roundHalfEven (real_of_int (m * 2 ^ d)) = m * 2 ^ d"
    by (rule roundHalfEven_of_int)
  also have "real_of_int (m * 2 ^ d) * 2 powi e0 = of_int m * 2 powi e"
    by (simp add: split)
  finally show ?thesis by (simp only: x)
qed

lemma round64_exact:
  assumes x: "x = of_int m * 2 powi e" and m: "\<bar>m\<bar> \<le> 2 ^ 53" and e: "- 1074 \<le> e"
  shows "round64 x = x"
proof (cases "\<bar>m\<bar> < 2 ^ 53")
  case True
  from x True e show ?thesis by (rule round64_exact_less)
next
  case False
  with m have "m = 2 ^ 53 \<or> m = - (2 ^ 53)" by linarith
  then have half: "real_of_int m = 2 * real_of_int (m div 2)" and small: "\<bar>m div 2\<bar> < 2 ^ 53"
    by auto
  have "(2::real) powi (e + 1) = 2 * 2 powi e" by (simp add: power_int_add)
  then have "x = of_int (m div 2) * 2 powi (e + 1)" by (simp add: x half)
  then show ?thesis using small
  proof (rule round64_exact_less)
    show "- 1074 \<le> e + 1" using e by simp
  qed
qed

lemma round64_of_int: "\<bar>m\<bar> \<le> 2 ^ 53 \<Longrightarrow> round64 (of_int m) = of_int m"
  using round64_exact [of "of_int m" m 0] by simp

lemma round64_mantissa:
  assumes "x \<noteq> 0"
  shows "\<bar>roundHalfEven (x / 2 powi ulpExponent x)\<bar> \<le> 2 ^ 53"
proof -
  let ?s = "x / 2 powi ulpExponent x"
  have "\<bar>?s\<bar> = \<bar>x\<bar> / 2 powi ulpExponent x"
    using pow2_pos [of "ulpExponent x"] by (simp add: abs_divide)
  then have "\<bar>?s\<bar> < 2 ^ 53" using scaled_less [OF assms] by simp
  then have "?s \<le> 2 ^ 53" "- (2 ^ 53) \<le> ?s" by linarith+
  then have "?s \<le> of_int (2 ^ 53)" "of_int (- (2 ^ 53)) \<le> ?s" by simp_all
  then have "roundHalfEven ?s \<le> 2 ^ 53" "- (2 ^ 53) \<le> roundHalfEven ?s"
    using roundHalfEven_le roundHalfEven_ge by blast+
  then show ?thesis by simp
qed

lemma round64_idem [simp]: "round64 (round64 x) = round64 x"
proof (cases "x = 0")
  case True
  then show ?thesis by simp
next
  case False
  then have "round64 x = of_int (roundHalfEven (x / 2 powi ulpExponent x)) * 2 powi ulpExponent x"
    by (simp add: round64_def)
  then show ?thesis
    using round64_mantissa [OF False] ulpExponent_ge by (rule round64_exact)
qed

lemma ilog2_mono:
  assumes "0 < x" and "x \<le> y"
  shows "ilog2 x \<le> ilog2 y"
proof -
  have "2 powi ilog2 x \<le> x" using assms(1) by (rule ilog2_bounds)
  moreover have "y < 2 powi (ilog2 y + 1)" using assms by (intro ilog2_bounds) simp
  ultimately have "(2::real) powi ilog2 x < 2 powi (ilog2 y + 1)" using assms(2) by linarith
  then have "ilog2 x < ilog2 y + 1" by (simp only: pow2_less_iff)
  then show ?thesis by simp
qed

lemma round64_mono_nonneg:
  assumes "0 \<le> x" and "x \<le> y"
  shows "round64 x \<le> round64 y"
proof (cases "x = 0")
  case True
  then show ?thesis using round64_nonneg [of y] assms by simp
next
  case False
  with assms have x: "0 < x" and y: "0 < y" by simp_all
  let ?ex = "ulpExponent x" and ?ey = "ulpExponent y"
  have exy: "?ex \<le> ?ey"
    using ilog2_mono [OF x assms(2)] x y by (simp add: ulpExponent_def)
  have rx: "round64 x = of_int (roundHalfEven (x / 2 powi ?ex)) * 2 powi ?ex"
    using x by (simp add: round64_def)
  have ry: "round64 y = of_int (roundHalfEven (y / 2 powi ?ey)) * 2 powi ?ey"
    using y by (simp add: round64_def)
  show ?thesis
  proof (cases "?ex = ?ey")
    case True
    have "x / 2 powi ?ey \<le> y / 2 powi ?ey"
      using assms(2) pow2_pos [of ?ey] by (simp add: divide_right_mono)
    then have "roundHalfEven (x / 2 powi ?ey) \<le> roundHalfEven (y / 2 powi ?ey)"
      by (rule roundHalfEven_mono)
    then have "real_of_int (roundHalfEven (x / 2 powi ?ey)) \<le> real_of_int (roundHalfEven (y / 2 powi ?ey))"
      by (simp only: of_int_le_iff)
    then show ?thesis using pow2_pos [of ?ey] by (simp add: rx ry True)
  next
    case False
    with exy have lt: "?ex + 1 \<le> ?ey" by simp
    then have "- 1074 < ?ey" using ulpExponent_ge [of x] by linarith
    then have "2 ^ 52 \<le> \<bar>y\<bar> / 2 powi ?ey" using y by (intro scaled_ge) simp_all
    then have "of_int (2 ^ 52) \<le> y / 2 powi ?ey" using y by simp
    then have "2 ^ 52 \<le> roundHalfEven (y / 2 powi ?ey)" by (rule roundHalfEven_ge)
    then have "real_of_int (2 ^ 52) \<le> real_of_int (roundHalfEven (y / 2 powi ?ey))"
      by (simp only: of_int_le_iff)
    then have "2 ^ 52 * 2 powi ?ey \<le> round64 y"
      using pow2_pos [of ?ey] by (simp add: ry)
    moreover have "round64 x \<le> 2 ^ 53 * 2 powi ?ex"
    proof -
      have "roundHalfEven (x / 2 powi ?ex) \<le> 2 ^ 53" using round64_mantissa [of x] x by simp
      then have "real_of_int (roundHalfEven (x / 2 powi ?ex)) \<le> real_of_int (2 ^ 53)"
        by (simp only: of_int_le_iff)
      then show ?thesis using pow2_pos [of ?ex] by (simp add: rx)
    qed
    moreover have "(2::real) ^ 53 * 2 powi ?ex \<le> 2 ^ 52 * 2 powi ?ey"
    proof -
      have "(2::real) ^ 53 * 2 powi ?ex = 2 ^ 52 * 2 powi (?ex + 1)" by (simp add: power_int_add)
      also have "\<dots> \<le> 2 ^ 52 * 2 powi ?ey"
        using lt by (intro mult_left_mono power_int_increasing) simp_all
      finally show ?thesis .
    qed
    ultimately show ?thesis by linarith
  qed
qed

text \<open>The constants of the source and the evaluation of a rounding at a given number.\<close>

lemmas round64_eval = round64_def ulpExponent_def ilog2_def roundHalfEven_def compute_bitlen Let_def

lemma round64_consts:
  "round64 (6 / 5) = 5404319552844595 / 4503599627370496"
  "round64 (4 / 5) = 3602879701896397 / 4503599627370496"
  "round64 (3 / 5) = 5404319552844595 / 9007199254740992"
  by (simp_all add: round64_def ulpExponent_def ilog2_def roundHalfEven_def compute_bitlen Let_def)

lemma round64_numerals:
  "round64 1 = 1" "round64 2 = 2" "round64 5 = 5" "round64 10 = 10" "round64 15 = 15"
  "round64 20 = 20" "round64 25 = 25" "round64 35 = 35" "round64 40 = 40" "round64 100 = 100"
  using round64_of_int [of 1] round64_of_int [of 2] round64_of_int [of 5] round64_of_int [of 10]
    round64_of_int [of 15] round64_of_int [of 20] round64_of_int [of 25] round64_of_int [of 35]
    round64_of_int [of 40] round64_of_int [of 100]
  by simp_all

lemma fadd_fadd_zero: "fadd (fadd x y) 0 = fadd x y"
  by (simp add: fadd_def)

section \<open>Arithmetic that does not wrap around\<close>

lemma wrap64_id: "- (2 ^ 63) \<le> x \<Longrightarrow> x < 2 ^ 63 \<Longrightarrow> wrap64 x = x"
  by (simp add: wrap64_def)

lemma foldl_add64_sum:
  "\<forall>d\<in>set rts. 0 \<le> d \<Longrightarrow> 0 \<le> a \<Longrightarrow> a + sum_list rts < 2 ^ 63 \<Longrightarrow>
   foldl add64 a rts = a + sum_list rts"
proof (induction rts arbitrary: a)
  case Nil
  then show ?case by simp
next
  case (Cons d rts)
  have nonneg: "0 \<le> sum_list rts"
    using Cons.prems(1) by (simp add: sum_list_nonneg)
  have "add64 a d = a + d"
    unfolding add64_def using Cons.prems nonneg by (intro wrap64_id) auto
  moreover have "foldl add64 (a + d) rts = (a + d) + sum_list rts"
    using Cons.prems by (intro Cons.IH) auto
  ultimately show ?case by simp
qed

lemma sumDurations_sum:
  "\<forall>d\<in>set rts. 0 \<le> d \<Longrightarrow> sum_list rts < 2 ^ 63 \<Longrightarrow> sumDurations rts = sum_list rts"
  unfolding sumDurations_def using foldl_add64_sum [of rts 0] by simp

lemma quo64_nonneg:
  assumes "0 \<le> x" "x < 2 ^ 63" "0 < n"
  shows "quo64 x n = x div n"
proof -
  have "x sdiv n = x div n"
    using assms by (simp add: signed_divide_int_def sgn_if)
  moreover have "0 \<le> x div n"
    using assms by (simp add: pos_imp_zdiv_nonneg_iff)
  moreover have "x div n \<le> x"
    using zdiv_mono2 [of x 1 n] assms by simp
  ultimately show ?thesis
    unfolding quo64_def using assms by (simp add: wrap64_id)
qed

lemma wrap64_nonneg: "0 \<le> x \<Longrightarrow> x < 2 ^ 63 \<Longrightarrow> wrap64 x = x"
  by (simp add: wrap64_def)

lemma sum_list_squares_nonneg: "0 \<le> (\<Sum>d\<leftarrow>rts. (d - m) * (d - m :: int))"
  by (induction rts) auto

lemma foldl_squares_sum:
  "\<forall>d\<in>set rts. - (2 ^ 63) \<le> d - avg \<and> d - avg < 2 ^ 63 \<Longrightarrow> 0 \<le> a \<Longrightarrow>
   a + (\<Sum>d\<leftarrow>rts. (d - avg) * (d - avg)) < 2 ^ 63 \<Longrightarrow>
   foldl (\<lambda>variance rt. let diff = sub64 rt avg in add64 variance (mul64 diff diff)) a rts
     = a + (\<Sum>d\<leftarrow>rts. (d - avg) * (d - avg))"
proof (induction rts arbitrary: a)
  case Nil
  then show ?case by simp
next
  case (Cons d rts)
  let ?sq = "(d - avg) * (d - avg)"
  have rest: "0 \<le> (\<Sum>d\<leftarrow>rts. (d - avg) * (d - avg))"
    by (rule sum_list_squares_nonneg)
  have sq0: "0 \<le> ?sq"
    by simp
  have sqfit: "a + ?sq < 2 ^ 63"
    using Cons.prems(3) rest by simp
  have diff: "sub64 d avg = d - avg"
    unfolding sub64_def using Cons.prems(1) by (intro wrap64_id) auto
  have "?sq < 2 ^ 63"
    using sqfit Cons.prems(2) by linarith
  with sq0 have sq: "mul64 (d - avg) (d - avg) = ?sq"
    unfolding mul64_def by (rule wrap64_nonneg)
  have "0 \<le> a + ?sq"
    using Cons.prems(2) sq0 by (rule add_nonneg_nonneg)
  then have acc: "add64 a ?sq = a + ?sq"
    unfolding add64_def using sqfit by (rule wrap64_nonneg)
  have "foldl (\<lambda>variance rt. let diff = sub64 rt avg in add64 variance (mul64 diff diff))
          (a + ?sq) rts = (a + ?sq) + (\<Sum>d\<leftarrow>rts. (d - avg) * (d - avg))"
    using Cons.prems \<open>0 \<le> a + ?sq\<close> by (intro Cons.IH) (auto simp: add.assoc)
  then show ?case
    by (simp add: diff sq acc Let_def)
qed

lemma trunc_half:
  assumes "0 \<le> v"
  shows "trunc (real_of_int v / 2) = v div 2"
proof -
  have "real_of_int v / 2 = real_of_int v / real_of_int 2"
    by simp
  then have "\<lfloor>real_of_int v / 2\<rfloor> = v div 2"
    by (simp only: floor_divide_of_int_eq)
  then show ?thesis
    using assms by (simp add: trunc_def)
qed

lemma round64_half_of_int:
  assumes "\<bar>v\<bar> \<le> 2 ^ 53"
  shows "round64 (real_of_int v / 2) = real_of_int v / 2"
proof -
  have "real_of_int v / 2 = of_int v * 2 powi (- 1)" by simp
  then show ?thesis using assms by (rule round64_exact) simp
qed

lemma halve_small_variance:
  assumes "0 \<le> v" and "v \<le> 2 ^ 53"
  shows "trunc (fmul (float64_of_int v) (1 / 2)) = v div 2"
proof -
  have conv: "float64_of_int v = real_of_int v"
    unfolding float64_of_int_def using assms by (intro round64_of_int) simp
  have "round64 (real_of_int v / 2) = real_of_int v / 2"
    using assms by (intro round64_half_of_int) simp
  then have half: "fmul (real_of_int v) (1 / 2) = real_of_int v / 2"
    by (simp add: fmul_def)
  show ?thesis
    unfolding conv half by (rule trunc_half [OF assms(1)])
qed

section \<open>Properties of the quality scorer\<close>

lemma qualityScore_spec_score: "qualityScore s = spec_score s"
  by (simp add: qualityScore_def spec_score_def speed_factor_def buffer_factor_def
      loss_factor_def jitter_factor_def Millisecond_def Second_def Let_def
      fadd_fadd_zero round64_numerals fadd_def [of 0])

text \<open>The score and the label do not read the label field of the snapshot.\<close>

lemma qualityScore_ignores_label: "qualityScore (s\<lparr>NetworkQuality := q\<rparr>) = qualityScore s"
  by (simp add: qualityScore_spec_score spec_score_def)

lemma assessNetworkQuality_ignores_label:
  "assessNetworkQuality (s\<lparr>NetworkQuality := q\<rparr>) = assessNetworkQuality s"
  by (simp add: assessNetworkQuality_def qualityScore_ignores_label)

lemma scenario_ratio:
  "float64_of_int 128000 = 128000"
  "fdiv 128000 8 = 16000"
  "fdiv 6400 16000 = 3602879701896397 / 9007199254740992"
  by (simp_all add: float64_of_int_def fdiv_def round64_eval)

lemma scenario_sums:
  "fadd 0 5 = 5" "fadd 5 5 = 10" "fmul 50 (1 / 4) = 25 / 2" "fadd 10 (25 / 2) = 45 / 2"
  "fadd (45 / 2) 2 = 49 / 2" "fadd (49 / 2) 1 = 51 / 2"
  by (simp_all add: fadd_def fmul_def round64_eval)

text \<open>
  Claim C4, as amended. In the snapshot with bitrate 128000, download speed 6400,
  buffer health 20, stability 50, packet loss 8 and jitter 600 ms, the speed ratio is
  0.4, the five factors are 5, 5, 12.5, 2 and 1 (a jitter of 600 ms is below one
  second), the score is 25.5 and the label is "Very Poor".
\<close>

theorem scenario_score:
  assumes "Bitrate s = 128000" and "DownloadSpeed s = 6400" and "BufferHealth s = 20"
    and "ConnectionStability s = 50" and "PacketLoss s = 8" and "Jitter s = 600 * Millisecond"
  shows "DownloadSpeed s / (real_of_int (Bitrate s) / 8) = 0.4
    \<and> qualityScore s = 5 + 5 + 12.5 + 2 + 1
    \<and> qualityScore s = 25.5
    \<and> assessNetworkQuality s = ''Very Poor''"
proof -
  have score: "qualityScore s = 25.5"
    using assms
    by (simp add: qualityScore_def Let_def Millisecond_def Second_def scenario_ratio
        round64_consts scenario_sums)
  then show ?thesis
    using assms by (simp add: assessNetworkQuality_def Let_def)
qed

theorem scenario_score_witness:
  "qualityScore scenario = 25.5 \<and> assessNetworkQuality scenario = ''Very Poor''"
  using scenario_score [of scenario] by (simp add: scenario_def zeroStats_def)

lemma scenario_score_value: "qualityScore scenario = 25.5"
  by (simp add: scenario_def zeroStats_def qualityScore_def Let_def Millisecond_def Second_def
      scenario_ratio round64_consts scenario_sums)

text \<open>The score of that snapshot is not the 24.5 of claim C4.\<close>

theorem scenario_score_not_24_5: "qualityScore scenario \<noteq> 24.5"
  by (simp add: scenario_score_value)

text \<open>
  Claim C5. For every snapshot the label is "Unknown" when the bitrate or the download
  speed is zero, and otherwise it is the label that the thresholds 90, 75, 60 and 40
  give to the sum of the five factors of the specification, the quotient, the product
  and the sum being those of binary64.
\<close>

theorem label_by_weighted_score:
  "assessNetworkQuality s =
     (if Bitrate s = 0 \<or> DownloadSpeed s = 0 then ''Unknown'' else spec_label (spec_score s))"
  by (simp add: assessNetworkQuality_def spec_label_def qualityScore_spec_score Let_def)

text \<open>
  The rounding decides the label near a threshold: the exact ratio of \<open>roundedRatio\<close>
  is below 1.2, the binary64 quotient is not, and the label is "Excellent".
\<close>

lemma roundedRatio_steps:
  "float64_of_int 96000 = 96000"
  "fdiv 96000 8 = 12000"
  "fdiv (7916483719987199 / 549755813888) 12000 = 5404319552844595 / 4503599627370496"
  "fadd 0 40 = 40" "fadd 40 20 = 60" "fmul 76 (1 / 4) = 19" "fadd 60 19 = 79" "fadd 79 10 = 89"
  "fadd 89 5 = 94"
  by (simp_all add: float64_of_int_def fdiv_def fadd_def fmul_def round64_eval)

lemma roundedRatio_label:
  "DownloadSpeed roundedRatio / (real_of_int (Bitrate roundedRatio) / 8) < 1.2
   \<and> qualityScore roundedRatio = 94 \<and> assessNetworkQuality roundedRatio = ''Excellent''"
  by (simp add: roundedRatio_def zeroStats_def assessNetworkQuality_def qualityScore_def Let_def
      Millisecond_def Second_def roundedRatio_steps round64_consts)

text \<open>The factors of the specification give the same score and label there.\<close>

theorem label_by_weighted_score_witness:
  "spec_score roundedRatio = 94 \<and> assessNetworkQuality roundedRatio = ''Excellent''"
proof -
  have score: "spec_score roundedRatio = 94"
    by (simp add: roundedRatio_def zeroStats_def spec_score_def speed_factor_def
        buffer_factor_def loss_factor_def jitter_factor_def roundedRatio_steps round64_consts)
  then show ?thesis
    using label_by_weighted_score [of roundedRatio]
    by (simp add: spec_label_def) (simp add: roundedRatio_def zeroStats_def)
qed

section \<open>Properties of the volume filter\<close>

text \<open>
  Claim C6. For a volume between 0 and 100 the filter value is
  \<open>-20 * (1 - percent / 100)\<close>, the first term of the source's formula is zero, and the
  value is the one in the argument list of the player.
\<close>

theorem volume_filter_value:
  assumes "0 \<le> volumePercent p" and "volumePercent p \<le> 100"
  shows "volDb p = - 20 * (1 - real_of_int (volumePercent p) / 100)
    \<and> volDbFirstTerm p = 0
    \<and> VolumeFilter (- 20 * (1 - real_of_int (volumePercent p) / 100)) \<in> set (ffplayArgs p url)"
  by (simp add: volDb_def volDbFirstTerm_def ffplayArgs_def)

theorem volume_filter_value_witness:
  "volDb (NewPlayer 0) = - 6
   \<and> volDb (SetVolume 0 (NewPlayer 0)) = - 20
   \<and> volDb (SetVolume 100 (NewPlayer 0)) = 0"
  using volume_filter_value [of "NewPlayer 0"] volume_filter_value [of "SetVolume 0 (NewPlayer 0)"]
    volume_filter_value [of "SetVolume 100 (NewPlayer 0)"]
  by (simp add: NewPlayer_def SetVolume_def)

section \<open>Properties of the stream analyzer\<close>

text \<open>
  Claim C10. With both counters at zero the stability computation returns 100;
  \<^verbatim>\<open>StartAnalysis\<close> sets the stability of the snapshot to 100, and it leaves the
  counters at zero, so the computation returns 100 on the session it has started.
\<close>

theorem fresh_session_stability:
  "(successfulRequests sa = 0 \<and> failedRequests sa = 0 \<longrightarrow> calculateConnectionStability sa = 100)
   \<and> ConnectionStability (stats (fst (snd (StartAnalysis now url sa')))) = 100
   \<and> calculateConnectionStability (fst (snd (StartAnalysis now url sa'))) = 100"
  by (simp add: calculateConnectionStability_def add64_def wrap64_def StartAnalysis_def Let_def)

theorem fresh_session_stability_witness:
  "calculateConnectionStability (NewStreamAnalyzer 0) = 100
   \<and> ConnectionStability (stats (fst (snd (StartAnalysis 5 ''u'' (NewStreamAnalyzer 0))))) = 100"
  using fresh_session_stability [of "NewStreamAnalyzer 0" 5 "''u''" "NewStreamAnalyzer 0"]
  by (simp add: NewStreamAnalyzer_def)

text \<open>
  Claim C7, as amended. For all counters and rings the returned stability lies between
  0 and 100. For counters that are not negative, whose sum is positive and fits in
  64 bits, and recorded durations that are not negative and whose sum fits in 64 bits,
  the stability is the binary64 product of the binary64 success rate and 100, times
  the binary64 constant 0.8 when at least two durations are recorded and their
  integer mean exceeds two seconds.
\<close>

theorem stability_value_and_bounds:
  "0 \<le> calculateConnectionStability sa \<and> calculateConnectionStability sa \<le> 100
   \<and> (0 \<le> successfulRequests sa \<and> 0 \<le> failedRequests sa
        \<and> 0 < successfulRequests sa + failedRequests sa
        \<and> successfulRequests sa + failedRequests sa < 2 ^ 63
        \<and> (\<forall>d\<in>set (requestTimes sa). 0 \<le> d) \<and> sum_list (requestTimes sa) < 2 ^ 63
      \<longrightarrow> calculateConnectionStability sa = guarded_stability sa)"
proof (intro conjI impI)
  show "0 \<le> calculateConnectionStability sa"
    by (simp add: calculateConnectionStability_def Let_def)
  show "calculateConnectionStability sa \<le> 100"
    by (simp add: calculateConnectionStability_def Let_def)
next
  assume hyps: "0 \<le> successfulRequests sa \<and> 0 \<le> failedRequests sa
        \<and> 0 < successfulRequests sa + failedRequests sa
        \<and> successfulRequests sa + failedRequests sa < 2 ^ 63
        \<and> (\<forall>d\<in>set (requestTimes sa). 0 \<le> d) \<and> sum_list (requestTimes sa) < 2 ^ 63"
  let ?s = "successfulRequests sa" and ?f = "failedRequests sa" and ?rts = "requestTimes sa"
  from hyps have s: "0 \<le> ?s" and f: "0 \<le> ?f" and pos: "0 < ?s + ?f"
    and fit: "?s + ?f < 2 ^ 63" and d: "\<forall>d\<in>set ?rts. 0 \<le> d" and dfit: "sum_list ?rts < 2 ^ 63"
    by simp_all
  have total: "add64 ?s ?f = ?s + ?f"
    unfolding add64_def using s f fit by (intro wrap64_id) auto
  define a where "a = float64_of_int ?s"
  define b where "b = float64_of_int (?s + ?f)"
  have a0: "0 \<le> a"
    unfolding a_def float64_of_int_def using s by (intro round64_nonneg) simp
  have ab: "a \<le> b"
    unfolding a_def b_def float64_of_int_def using s f by (intro round64_mono_nonneg) simp_all
  have "round64 1 \<le> round64 (real_of_int (?s + ?f))"
    using pos by (intro round64_mono_nonneg) simp_all
  then have b1: "1 \<le> b"
    by (simp add: b_def float64_of_int_def round64_numerals)
  have q0: "0 \<le> a / b" and q1: "a / b \<le> 1"
    using a0 ab b1 by simp_all
  define rate where "rate = fdiv a b"
  have rate0: "0 \<le> rate"
    unfolding rate_def fdiv_def using q0 by (rule round64_nonneg)
  have "round64 (a / b) \<le> round64 1"
    using q0 q1 by (rule round64_mono_nonneg)
  then have rate1: "rate \<le> 1"
    by (simp add: rate_def fdiv_def round64_numerals)
  define sp where "sp = fmul rate 100"
  have sp0: "0 \<le> sp"
    unfolding sp_def fmul_def using rate0 by (intro round64_nonneg) simp
  have "round64 (rate * 100) \<le> round64 100"
    using rate0 rate1 by (intro round64_mono_nonneg) simp_all
  then have sp100: "sp \<le> 100"
    by (simp add: sp_def fmul_def round64_numerals)
  define c where "c = round64 (4 / 5)"
  have c0: "0 \<le> c"
    unfolding c_def by (intro round64_nonneg) simp
  have "round64 (4 / 5) \<le> round64 1"
    by (intro round64_mono_nonneg) simp_all
  then have c1: "c \<le> 1"
    by (simp add: c_def round64_numerals)
  have prod0: "0 \<le> sp * c"
    using sp0 c0 by simp
  have "sp * c \<le> sp * 1"
    using c1 sp0 by (intro mult_left_mono)
  then have prod100: "sp * c \<le> 100"
    using sp100 by simp
  have pen0: "0 \<le> fmul sp c"
    unfolding fmul_def using prod0 by (rule round64_nonneg)
  have "round64 (sp * c) \<le> round64 100"
    using prod0 prod100 by (rule round64_mono_nonneg)
  then have pen100: "fmul sp c \<le> 100"
    by (simp add: fmul_def round64_numerals)
  have sum0: "0 \<le> sum_list ?rts"
    using d by (simp add: sum_list_nonneg)
  have avg: "quo64 (sumDurations ?rts) (int (length ?rts)) = sum_list ?rts div int (length ?rts)"
    if "1 < length ?rts"
  proof -
    have "0 < int (length ?rts)"
      using that by (cases "requestTimes sa") auto
    then have "quo64 (sum_list ?rts) (int (length ?rts)) = sum_list ?rts div int (length ?rts)"
      using sum0 dfit by (rule quo64_nonneg [rotated 2])
    then show ?thesis
      using sumDurations_sum [OF d dfit] by simp
  qed
  have code: "calculateConnectionStability sa =
      (let stability = (if 1 < length ?rts
                           \<and> quo64 (sumDurations ?rts) (int (length ?rts)) > 2 * Second
                        then fmul sp c else sp);
           stability = (if stability < 0 then 0 else stability)
       in if stability > 100 then 100 else stability)"
    using pos
    by (simp add: calculateConnectionStability_def total Let_def sp_def rate_def a_def b_def c_def)
  have spec: "guarded_stability sa =
      (if 1 < length ?rts \<and> sum_list ?rts div int (length ?rts) > 2 * Second
       then fmul sp c else sp)"
    by (simp add: guarded_stability_def success_percent_def sp_def rate_def a_def b_def c_def)
  show "calculateConnectionStability sa = guarded_stability sa"
  proof (cases "1 < length ?rts \<and> sum_list ?rts div int (length ?rts) > 2 * Second")
    case True
    then show ?thesis
      using avg pen0 pen100 by (simp add: code spec Let_def)
  next
    case False
    then show ?thesis
      using avg sp0 sp100 by (auto simp add: code spec Let_def)
  qed
qed

lemma slowProbe_fields:
  "successfulRequests slowProbe = 1" "failedRequests slowProbe = 0"
  "requestTimes slowProbe = [3000000000]"
  by (simp_all add: slowProbe_def recordRequest_def StartAnalysis_def NewStreamAnalyzer_def
      add64_def wrap64_def Second_def Let_def)

lemma threeSlowOneFailed_fields:
  "successfulRequests threeSlowOneFailed = 3" "failedRequests threeSlowOneFailed = 1"
  "requestTimes threeSlowOneFailed = [3000000000, 3000000000, 3000000000]"
  by (simp_all add: threeSlowOneFailed_def slowProbe_fields recordRequest_def
      add64_def wrap64_def Second_def Let_def)

lemma fiftySevenOfHundred_fields:
  "successfulRequests fiftySevenOfHundred = 57" "failedRequests fiftySevenOfHundred = 43"
  "requestTimes fiftySevenOfHundred = []"
  by (simp_all add: fiftySevenOfHundred_def NewStreamAnalyzer_def)

lemma stability_steps:
  "float64_of_int 1 = 1" "float64_of_int 3 = 3" "float64_of_int 4 = 4"
  "float64_of_int 57 = 57" "float64_of_int 100 = 100"
  "fdiv 1 1 = 1" "fmul 1 100 = 100"
  "fdiv 3 4 = 3 / 4" "fmul (3 / 4) 100 = 75"
  "fmul 75 (3602879701896397 / 4503599627370496) = 60"
  "fmul 100 (3602879701896397 / 4503599627370496) = 80"
  "fdiv 57 100 = 5134103575202365 / 9007199254740992"
  "fmul (5134103575202365 / 9007199254740992) 100 = 8022036836253695 / 140737488355328"
  by (simp_all add: float64_of_int_def fdiv_def fmul_def round64_eval)

text \<open>
  Three probes of three seconds and one failed probe give 75 times 0.8, which rounds to
  60; 57 successes of 100 probes give the binary64 number next below 57.
\<close>

theorem stability_value_and_bounds_witness:
  "calculateConnectionStability threeSlowOneFailed = 60
   \<and> calculateConnectionStability fiftySevenOfHundred = 8022036836253695 / 140737488355328"
  using stability_value_and_bounds [of threeSlowOneFailed]
    stability_value_and_bounds [of fiftySevenOfHundred]
  by (simp add: threeSlowOneFailed_fields fiftySevenOfHundred_fields guarded_stability_def
      success_percent_def Second_def stability_steps round64_consts)

text \<open>
  Claim C7 as stated fails on a session with one recorded duration: the single probe
  took three seconds, its average exceeds two seconds, and the stability is 100.
\<close>

theorem slow_single_probe_not_penalised:
  "0 < successfulRequests slowProbe + failedRequests slowProbe
   \<and> calculateConnectionStability slowProbe = 100 \<and> spec_stability slowProbe = 80"
  by (simp add: slowProbe_fields calculateConnectionStability_def spec_stability_def
      success_percent_def add64_def wrap64_def Second_def Let_def stability_steps round64_consts)

text \<open>
  After every \<^verbatim>\<open>updateStats\<close> the label of the snapshot is the label of its other
  fields, and a tick of the network-quality monitor publishes the two computations.
\<close>

lemma updateStats_label:
  "NetworkQuality (stats (updateStats f sa)) = assessNetworkQuality (stats (updateStats f sa))"
  by (simp add: updateStats_def Let_def assessNetworkQuality_ignores_label)

lemma networkQualityTick_publishes:
  "Jitter (stats (networkQualityTick sa)) = calculateJitter (requestTimes sa)"
  "ConnectionStability (stats (networkQualityTick sa)) = calculateConnectionStability sa"
  by (simp_all add: networkQualityTick_def updateStats_def Let_def)

subsection \<open>Jitter\<close>

lemma calculateJitter_short: "length rts < 2 \<Longrightarrow> calculateJitter rts = 0"
  by (simp add: calculateJitter_def)

text \<open>
  When the durations are not negative, neither their sum nor the sum of the squared
  deviations exceeds the 64 bits, and the variance has at most 53 bits, the code returns
  the jitter of the specification.
\<close>

lemma calculateJitter_exact:
  assumes len: "2 \<le> length rts"
    and d: "\<forall>d\<in>set rts. 0 \<le> d"
    and dfit: "sum_list rts < 2 ^ 63"
    and sqfit: "spec_squares rts < 2 ^ 63"
    and small: "spec_squares rts sdiv int (length rts) \<le> 2 ^ 53"
  shows "calculateJitter rts = spec_jitter rts"
proof -
  let ?n = "int (length rts)"
  let ?mean = "sum_list rts div ?n"
  let ?ss = "\<Sum>d\<leftarrow>rts. (d - ?mean) * (d - ?mean)"
  have n: "0 < ?n"
    using len by (cases rts) auto
  have sum0: "0 \<le> sum_list rts"
    using d by (simp add: sum_list_nonneg)
  have sdiv_mean: "spec_mean rts = ?mean"
    using sum0 n by (simp add: spec_mean_def signed_divide_int_def sgn_if)
  have squares: "spec_squares rts = ?ss"
    by (simp add: spec_squares_def sdiv_mean)
  have ssfit: "?ss < 2 ^ 63"
    using sqfit by (simp only: squares)
  have mean: "quo64 (sumDurations rts) ?n = ?mean"
    using sumDurations_sum [OF d dfit] quo64_nonneg [OF sum0 dfit n] by simp
  have mean0: "0 \<le> ?mean"
    using sum0 n by (simp add: pos_imp_zdiv_nonneg_iff)
  have meanle: "?mean \<le> sum_list rts"
    using zdiv_mono2 [of "sum_list rts" 1 ?n] sum0 n by simp
  have dle: "\<forall>d\<in>set rts. d \<le> sum_list rts"
    using d by (simp add: member_le_sum_list)
  have range: "\<forall>d\<in>set rts. - (2 ^ 63) \<le> d - ?mean \<and> d - ?mean < 2 ^ 63"
    using d dle mean0 meanle dfit by fastforce
  have ss0: "0 \<le> ?ss"
    by (rule sum_list_squares_nonneg)
  have ss: "sumSquares ?mean rts = ?ss"
    unfolding sumSquares_def using foldl_squares_sum [OF range, of 0] ssfit by simp
  have var: "quo64 ?ss ?n = ?ss div ?n"
    using ss0 ssfit n by (rule quo64_nonneg)
  have var0: "0 \<le> ?ss div ?n"
    using ss0 n by (simp add: pos_imp_zdiv_nonneg_iff)
  have varle: "?ss div ?n \<le> ?ss"
    using zdiv_mono2 [of ?ss 1 ?n] ss0 n by simp
  have half0: "0 \<le> ?ss div ?n div 2"
    using var0 by simp
  have halfle: "?ss div ?n div 2 \<le> ?ss div ?n"
    using zdiv_mono2 [of "?ss div ?n" 1 2] var0 by simp
  have wrap: "wrap64 (?ss div ?n div 2) = ?ss div ?n div 2"
    using half0 halfle varle ssfit by (intro wrap64_id) auto
  have sdiv_var: "?ss sdiv ?n = ?ss div ?n"
    using ss0 n by (simp add: signed_divide_int_def sgn_if)
  have var53: "?ss div ?n \<le> 2 ^ 53"
    using small by (simp only: squares sdiv_var)
  have code: "calculateJitter rts = ?ss div ?n div 2"
    using len
    by (simp add: calculateJitter_def Let_def mean ss var halve_small_variance [OF var0 var53] wrap)
  have "spec_jitter rts = ?ss div ?n div 2"
    using len by (simp add: spec_jitter_def squares Let_def sdiv_var trunc_half [OF var0])
  with code show ?thesis by simp
qed


lemma spec_jitter_example: "spec_jitter [1000000, 3000000] = 500000000000"
  by (simp add: spec_jitter_def spec_squares_def spec_mean_def Let_def signed_divide_int_def
      trunc_def)

lemma calculateJitter_exact_example:
  "calculateJitter [1 * Millisecond, 3 * Millisecond] = 500000000000"
proof -
  have "calculateJitter [1000000, 3000000] = spec_jitter [1000000, 3000000]"
    by (rule calculateJitter_exact)
      (simp_all add: spec_squares_def spec_mean_def signed_divide_int_def)
  then show ?thesis by (simp add: Millisecond_def spec_jitter_example)
qed

text \<open>
  Above 53 bits the conversion rounds the variance before it is halved: the jitter of
  probes of 100 ms and 480.000004 ms is two nanoseconds below half the variance.
\<close>

lemma rounded_variance_steps:
  "sumDurations [100000000, 480000004] = 580000004"
  "quo64 580000004 2 = 290000002"
  "sumSquares 290000002 [100000000, 480000004] = 72200001520000008"
  "quo64 72200001520000008 2 = 36100000760000004"
  "fmul (float64_of_int 36100000760000004) (1 / 2) = 18050000380000000"
  "trunc 18050000380000000 = 18050000380000000"
  "wrap64 18050000380000000 = 18050000380000000"
  by (simp_all add: sumDurations_def sumSquares_def add64_def sub64_def mul64_def quo64_def
      wrap64_def signed_divide_int_def trunc_def float64_of_int_def fmul_def round64_eval)

lemma jitter_rounds_variance:
  "calculateJitter [100000000, 480000004] = 18050000380000000
   \<and> spec_jitter [100000000, 480000004] = 18050000380000002"
proof
  show "calculateJitter [100000000, 480000004] = 18050000380000000"
    by (simp add: calculateJitter_def Let_def rounded_variance_steps)
  show "spec_jitter [100000000, 480000004] = 18050000380000002"
    by (simp add: spec_jitter_def spec_squares_def spec_mean_def Let_def signed_divide_int_def
        trunc_def)
qed

lemma wrapped_sum: "sumDurations [1000000000, 9000000000] = 10000000000"
  by (simp add: sumDurations_def add64_def wrap64_def)

lemma wrapped_mean: "quo64 10000000000 2 = 5000000000"
  by (simp add: quo64_def wrap64_def signed_divide_int_def)

lemma wrapped_squares: "sumSquares 5000000000 [1000000000, 9000000000] = - 4893488147419103232"
  by (simp add: sumSquares_def add64_def sub64_def mul64_def wrap64_def Let_def)

lemma wrapped_variance: "quo64 (- 4893488147419103232) 2 = - 2446744073709551616"
  by (simp add: quo64_def wrap64_def signed_divide_int_def)

lemma wrapped_half:
  "fmul (float64_of_int (- 2446744073709551616)) (1 / 2) = - 1223372036854775808"
  by (simp add: float64_of_int_def fmul_def round64_eval)

lemma wrapped_trunc: "trunc (- 1223372036854775808) = - 1223372036854775808"
  by (simp add: trunc_def)

lemma wrapped_result: "wrap64 (- 1223372036854775808) = - 1223372036854775808"
  by (simp add: wrap64_def)

lemma exact_trunc: "trunc 8000000000000000000 = 8000000000000000000"
  by (simp add: trunc_def)

text \<open>
  Claim C8 on the ring of two probes that took one second and nine seconds. The
  squared deviation \<open>(4 * 10^9)^2\<close> exceeds the 64 bits, the sum of the squares wraps
  around, and the code returns a negative jitter, where half the population variance
  is \<open>8 * 10^18\<close> nanoseconds.
\<close>

theorem jitter_wraps_around:
  "calculateJitter [1 * Second, 9 * Second] = - 1223372036854775808
   \<and> spec_jitter [1 * Second, 9 * Second] = 8000000000000000000"
proof
  show "calculateJitter [1 * Second, 9 * Second] = - 1223372036854775808"
    by (simp add: calculateJitter_def Second_def Let_def wrapped_sum wrapped_mean
        wrapped_squares wrapped_variance wrapped_half wrapped_trunc wrapped_result)
  show "spec_jitter [1 * Second, 9 * Second] = 8000000000000000000"
    by (simp add: spec_jitter_def spec_squares_def spec_mean_def Second_def Let_def
        signed_divide_int_def exact_trunc)
qed

text \<open>
  Claim C3, as amended. When the probe command fails the published snapshot has the
  codec "Unknown", the bitrate 0 and the sample rate 0; when its output does not parse,
  the codec "AAC", the bitrate 128000 and the sample rate 44100; when it parses and has
  no audio entry, the codec "Unknown", the bitrate 128000 and the sample rate 44100.
  The function returns the analyzer in every case: it has no error to surface.
\<close>

theorem metadata_fallbacks:
  "(let s = stats (extractMetadata None unmarshal sscan sa)
    in Codec s = ''Unknown'' \<and> Bitrate s = 0 \<and> SampleRate s = 0)
   \<and> (unmarshal out1 = None \<longrightarrow>
        (let s = stats (extractMetadata (Some out1) unmarshal sscan sa)
         in Codec s = ''AAC'' \<and> Bitrate s = 128000 \<and> SampleRate s = 44100))
   \<and> (unmarshal out2 = Some streams \<and> find (\<lambda>st. CodecType st = ''audio'') streams = None \<longrightarrow>
        (let s = stats (extractMetadata (Some out2) unmarshal sscan sa)
         in Codec s = ''Unknown'' \<and> Bitrate s = 128000 \<and> SampleRate s = 44100))"
  by (simp add: extractMetadata_def updateStats_def Let_def)

theorem metadata_fallbacks_witness:
  "Codec (stats (extractMetadata (Some ''not json'') unmarshalVideoOnly (\<lambda>_. None)
      (NewStreamAnalyzer 0))) = ''AAC''
   \<and> Bitrate (stats (extractMetadata (Some ''video only'') unmarshalVideoOnly (\<lambda>_. None)
      (NewStreamAnalyzer 0))) = 128000
   \<and> Codec (stats (extractMetadata (Some ''video only'') unmarshalVideoOnly (\<lambda>_. None)
      (NewStreamAnalyzer 0))) = ''Unknown''"
  using metadata_fallbacks [of unmarshalVideoOnly "\<lambda>_. None" "NewStreamAnalyzer 0"
      "''not json''" "''video only''" "[videoStream]"]
  by (simp add: unmarshalVideoOnly_def videoStream_def Let_def)

text \<open>
  Claim C3 as stated fails when the probe command fails: the published bitrate and
  sample rate are 0, not 128000 and 44100.
\<close>

theorem probe_failure_publishes_zero:
  "Bitrate (stats (extractMetadata None unmarshalVideoOnly (\<lambda>_. None) (NewStreamAnalyzer 0))) = 0
   \<and> Bitrate (stats (extractMetadata None unmarshalVideoOnly (\<lambda>_. None) (NewStreamAnalyzer 0)))
       \<noteq> 128000
   \<and> SampleRate (stats (extractMetadata None unmarshalVideoOnly (\<lambda>_. None) (NewStreamAnalyzer 0)))
       = 0
   \<and> SampleRate (stats (extractMetadata None unmarshalVideoOnly (\<lambda>_. None) (NewStreamAnalyzer 0)))
       \<noteq> 44100"
  by (simp add: extractMetadata_def updateStats_def Let_def)

subsection \<open>Sessions and the cancellation token\<close>

lemma StartAnalysis_keeps:
  "ctx (fst (snd (StartAnalysis now url sa))) = ctx sa"
  "firstAudio (fst (snd (StartAnalysis now url sa))) = firstAudio sa"
  "stats (fst (snd (StartAnalysis now url sa))) =
     (stats sa)\<lparr>StartTime := now, TotalBytes := 0, PacketLoss := 0, Jitter := 0,
                 ConnectionStability := 100\<rparr>"
  by (simp_all add: StartAnalysis_def Let_def)

lemma StartAnalysis_resets:
  "successfulRequests (fst (snd (StartAnalysis now url sa))) = 0"
  "failedRequests (fst (snd (StartAnalysis now url sa))) = 0"
  "requestTimes (fst (snd (StartAnalysis now url sa))) = []"
  "bufferUsed (fst (snd (StartAnalysis now url sa))) = 0"
  "startTime (fst (snd (StartAnalysis now url sa))) = now"
  "lastDownloadTime (fst (snd (StartAnalysis now url sa))) = now"
  "lastRequestTime (fst (snd (StartAnalysis now url sa))) = 0"
  "snd (snd (StartAnalysis now url sa)) =
     [ExtractMetadata url, MonitorDownloadSpeed url, MonitorBuffer, MonitorNetworkQuality url]"
  by (simp_all add: StartAnalysis_def Let_def)

text \<open>
  Claim C1 on a session that is started, stopped and started again. The second
  \<^verbatim>\<open>StartAnalysis\<close> launches its four tasks, and the context they select on is the
  context of the first session, which \<^verbatim>\<open>StopAnalysis\<close> has cancelled: a monitor exits
  at its first \<^verbatim>\<open>select\<close>.
\<close>

theorem second_session_token_cancelled:
  "(let sa1 = fst (snd (StartAnalysis 1 ''u'' (NewStreamAnalyzer 0)));
        sa2 = StopAnalysis sa1;
        sa3 = fst (snd (StartAnalysis 2 ''v'' sa2))
    in \<not> cancelled (ctx sa1)
       \<and> snd (snd (StartAnalysis 2 ''v'' sa2)) =
           [ExtractMetadata ''v'', MonitorDownloadSpeed ''v'', MonitorBuffer,
            MonitorNetworkQuality ''v'']
       \<and> ctx_id (ctx sa3) = ctx_id (ctx sa1) \<and> cancelled (ctx sa3) \<and> monitor_exits sa3)"
  by (simp add: StartAnalysis_def StopAnalysis_def NewStreamAnalyzer_def monitor_exits_def Let_def)

text \<open>
  The controller reaches that state: after a station is started and then switched,
  the analyzer of the player holds the cancelled context.
\<close>

lemma restart_leaves_analysis_cancelled:
  "map_option (\<lambda>w. monitor_exits (analyzer (player w)))
     (run ([CallStart (Inr ''a'') 1 None] @ Restart ExitsInTime (Inr ''b'') 2 None) initWorld)
   = Some True"
  by (simp add: Restart_def step_def initWorld_def NewPlayer_def Start_def Stop_def
      StartAnalysis_def StopAnalysis_def NewStreamAnalyzer_def monitor_exits_def Let_def
      split: prod.splits)

section \<open>Properties of the playback controller\<close>

lemma runningPlayer_handle: "processHandle runningPlayer = Some 0"
  by (simp add: processHandle_def runningPlayer_def Start_def NewPlayer_def Let_def)

lemma runningPlayer_flags:
  "\<not> isStopped runningPlayer" "\<not> cancelled (ctx (analyzer runningPlayer))"
  by (simp_all add: runningPlayer_def Start_def NewPlayer_def StartAnalysis_def
      NewStreamAnalyzer_def Let_def)

text \<open>
  Claim C2, as amended. \<^verbatim>\<open>Stop\<close> always marks the player stopped and cancels the
  analysis. With no process in the slot it returns no error and the slot stays empty.
  With a process in the slot, the slot is empty when the process has exited within the
  two seconds and when it has been killed after the deadline; when the termination
  signal fails, \<^verbatim>\<open>Stop\<close> returns the error of the signal and the process is still in
  the slot.
\<close>

theorem stop_handle_cases:
  "(processHandle idle = None \<longrightarrow>
      fst (Stop outcome idle) = None \<and> processHandle (snd (Stop outcome idle)) = None
      \<and> isStopped (snd (Stop outcome idle))
      \<and> cancelled (ctx (analyzer (snd (Stop outcome idle)))))
   \<and> (processHandle p = Some pid \<longrightarrow>
        fst (Stop ExitsInTime p) = None \<and> processHandle (snd (Stop ExitsInTime p)) = None
        \<and> isStopped (snd (Stop ExitsInTime p))
        \<and> cancelled (ctx (analyzer (snd (Stop ExitsInTime p))))
        \<and> fst (Stop DeadlineElapses p) = None
        \<and> processHandle (snd (Stop DeadlineElapses p)) = None
        \<and> isStopped (snd (Stop DeadlineElapses p))
        \<and> cancelled (ctx (analyzer (snd (Stop DeadlineElapses p))))
        \<and> fst (Stop (SignalFails e) p) = Some (SignalError e)
        \<and> processHandle (snd (Stop (SignalFails e) p)) = Some pid
        \<and> isStopped (snd (Stop (SignalFails e) p))
        \<and> cancelled (ctx (analyzer (snd (Stop (SignalFails e) p)))))"
  by (auto simp add: processHandle_def Stop_def StopAnalysis_def Let_def split: option.splits)

theorem stop_handle_cases_witness:
  "processHandle (snd (Stop ExitsInTime (NewPlayer 0))) = None
   \<and> isStopped (snd (Stop ExitsInTime (NewPlayer 0)))
   \<and> processHandle (snd (Stop ExitsInTime runningPlayer)) = None
   \<and> processHandle (snd (Stop DeadlineElapses runningPlayer)) = None
   \<and> processHandle (snd (Stop (SignalFails ''no such process'') runningPlayer)) = Some 0
   \<and> isStopped (snd (Stop (SignalFails ''no such process'') runningPlayer))
   \<and> cancelled (ctx (analyzer (snd (Stop (SignalFails ''no such process'') runningPlayer))))"
  using stop_handle_cases [of "NewPlayer 0" ExitsInTime runningPlayer 0 "''no such process''"]
  by (simp add: runningPlayer_handle) (simp add: processHandle_def NewPlayer_def)

text \<open>
  Claim C2 as stated fails on a running player whose termination signal fails:
  \<^verbatim>\<open>Stop\<close> returns the error of the signal, and the handle of the process is still in
  its slot.
\<close>

theorem stop_keeps_handle_when_signal_fails:
  "fst (Stop (SignalFails ''os: process already finished'') runningPlayer)
     = Some (SignalError ''os: process already finished'')
   \<and> cmd (snd (Stop (SignalFails ''os: process already finished'') runningPlayer))
     = cmd runningPlayer
   \<and> processHandle (snd (Stop (SignalFails ''os: process already finished'') runningPlayer))
     \<noteq> None"
  by (simp add: processHandle_def runningPlayer_def Start_def Stop_def NewPlayer_def Let_def)

text \<open>
  Claim C9 on the run \<open>staleReaperRun\<close>. The reaper of the first process clears the
  handle of the second process, the next \<^verbatim>\<open>Stop\<close> finds no handle and signals nothing,
  and the next \<^verbatim>\<open>Start\<close> spawns a third process: the processes 1 and 2 are live together.
\<close>

theorem two_players_live:
  "map_option live (run staleReaperRun initWorld) = Some [2, 1]
   \<and> map_option (\<lambda>w. processHandle (player w)) (run staleReaperRun initWorld) = Some (Some 2)"
  by (simp add: staleReaperRun_def Restart_def step_def initWorld_def NewPlayer_def Start_def
      Stop_def reap_def processHandle_def Let_def split: prod.splits)

end
